theory Spec2Isabelle
  imports Main "HOL-Library.AList" "HOL-Library.Word"
begin

section \<open>The tray of mouse-stay-up (internal/tray/tray.go)\<close>

text \<open>
  The package builds a system-tray menu with the systray library and runs one goroutine
  that waits for clicks and reacts to them. The model is a state-passing embedding:
  every call on a collaborator (the systray library, the mouse controller, the web
  page opener) is an update of one explicit state record, a Go map is an association
  list with unique keys, a pointer to a menu item is the index of that item in the list
  of all menu items created so far, a nil pointer is \<open>None\<close>, and a panic is the
  left summand of the result.
\<close>

subsection \<open>Data\<close>

type_synonym byte = "8 word"
type_synonym go_error = string
type_synonym item_ptr = nat

text \<open>
  A menu item of the systray library, reduced to what its methods
  \<open>Hide/Show/Enable/Disable/Check/Uncheck\<close> change, with the parent it was added under
  (\<open>None\<close> for an item of the top-level menu).
\<close>

record MenuItem =
  title :: string
  tooltip :: string
  parent :: "item_ptr option"
  disabled :: bool
  checked :: bool
  hidden :: bool

text \<open>
  The fields of \<open>config.Config\<close> that tray.go reads and writes. The type is declared
  in package config, which is not among the sources; \<open>SleepInterval\<close> is the number
  tray.go converts with \<open>int(...)\<close> and uses as a key of \<open>intervalItems\<close>.
\<close>

record Config =
  Enabled :: bool
  GitRepo :: string
  SleepInterval :: int
  WorkingHoursInterval :: string
  WorkingHours :: "string list"

text \<open>
  The state: the fields of \<open>Tray\<close> (\<open>config\<close>, \<open>intervalItems\<close>,
  \<open>workingHoursMenuItems\<close>) and what the collaborators hold: the menu items of the
  systray library in creation order, its separators, icon and tooltip, whether
  \<open>systray.Quit\<close> was called, the number of goroutines started with
  \<open>go t.mouseController.MoveMouse()\<close>, the pages handed to \<open>utils.OpenWebPage\<close>,
  and whether the goroutine of the \<open>select\<close> loop is running.
\<close>

record state =
  config :: Config
  intervalItems :: "(int \<times> item_ptr) list"
  workingHoursMenuItems :: "(string \<times> item_ptr) list"
  menu :: "MenuItem list"
  separators :: nat
  templateIcon :: "(byte list \<times> byte list) option"
  trayTooltip :: string
  quitCalled :: bool
  moveMouseRuns :: nat
  openedPages :: "string list"
  looping :: bool

text \<open>The local variables of \<open>onReady\<close> that the closure of the loop captures.\<close>

record locals =
  mEnable :: item_ptr
  mDisable :: item_ptr
  mInterval :: item_ptr
  mWorkingHours :: item_ptr
  mAbout :: item_ptr
  mQuit :: item_ptr

datatype panic =
  CouldNotLoadIcon go_error
| NilPointerDereference

text \<open>
  The embedded file system: opening a name fails or gives a file, and reading that file
  to its end fails or gives its bytes.
\<close>

type_synonym embed_FS = "string \<Rightarrow> go_error + (go_error + byte list)"

text \<open>What the \<open>select\<close> of the loop can receive.\<close>

datatype event =
  EnableClicked
| DisableClicked
| IntervalClicked int
| WorkingHoursClicked string
| AboutClicked
| QuitClicked

subsection \<open>The systray library, as tray.go uses it\<close>

definition new_item :: "string \<Rightarrow> string \<Rightarrow> item_ptr option \<Rightarrow> MenuItem" where
  "new_item t tt p =
     \<lparr>title = t, tooltip = tt, parent = p, disabled = False, checked = False, hidden = False\<rparr>"

definition AddMenuItem :: "string \<Rightarrow> string \<Rightarrow> state \<Rightarrow> item_ptr \<times> state" where
  "AddMenuItem t tt s = (length (menu s), s\<lparr>menu := menu s @ [new_item t tt None]\<rparr>)"

definition AddSubMenuItem :: "item_ptr \<Rightarrow> string \<Rightarrow> string \<Rightarrow> state \<Rightarrow> item_ptr \<times> state" where
  "AddSubMenuItem p t tt s = (length (menu s), s\<lparr>menu := menu s @ [new_item t tt (Some p)]\<rparr>)"

definition AddSeparator :: "state \<Rightarrow> state" where
  "AddSeparator s = s\<lparr>separators := Suc (separators s)\<rparr>"

definition SetTemplateIcon :: "byte list \<Rightarrow> byte list \<Rightarrow> state \<Rightarrow> state" where
  "SetTemplateIcon a b s = s\<lparr>templateIcon := Some (a, b)\<rparr>"

definition SetTooltip :: "string \<Rightarrow> state \<Rightarrow> state" where
  "SetTooltip t s = s\<lparr>trayTooltip := t\<rparr>"

definition Quit :: "state \<Rightarrow> state" where
  "Quit s = s\<lparr>quitCalled := True\<rparr>"

definition upd_item :: "item_ptr \<Rightarrow> (MenuItem \<Rightarrow> MenuItem) \<Rightarrow> state \<Rightarrow> state" where
  "upd_item p f s = s\<lparr>menu := (menu s)[p := f (menu s ! p)]\<rparr>"

definition Hide :: "item_ptr \<Rightarrow> state \<Rightarrow> state" where
  "Hide p = upd_item p (\<lambda>m. m\<lparr>hidden := True\<rparr>)"

definition Show :: "item_ptr \<Rightarrow> state \<Rightarrow> state" where
  "Show p = upd_item p (\<lambda>m. m\<lparr>hidden := False\<rparr>)"

definition Enable :: "item_ptr \<Rightarrow> state \<Rightarrow> state" where
  "Enable p = upd_item p (\<lambda>m. m\<lparr>disabled := False\<rparr>)"

definition Disable :: "item_ptr \<Rightarrow> state \<Rightarrow> state" where
  "Disable p = upd_item p (\<lambda>m. m\<lparr>disabled := True\<rparr>)"

definition Check :: "item_ptr \<Rightarrow> state \<Rightarrow> state" where
  "Check p = upd_item p (\<lambda>m. m\<lparr>checked := True\<rparr>)"

definition Uncheck :: "item_ptr \<Rightarrow> state \<Rightarrow> state" where
  "Uncheck p = upd_item p (\<lambda>m. m\<lparr>checked := False\<rparr>)"

subsection \<open>Package config\<close>

text \<open>
  Package config is not among the sources. Its two setters that tray.go calls, the
  values they accept and the sentinel label are modelled from the spec.
\<close>

text \<open>
  Modelled from the spec: the allowed values of the sleep interval, missing with package
  config. Section 3 allows a small set, a sentinel for the random range or a fixed
  number of seconds such as 30 or 60; these are the three values that tray.go offers
  in its submenu (lines 82 to 84).
\<close>

definition allowedIntervals :: "int list" where
  "allowedIntervals = [- 1, 30, 60]"

text \<open>
  Modelled from the spec: the sentinel label that means "always", missing with package
  config; the spec writes it \<open>always\<close> (section 8).
\<close>

definition alwaysLabel :: string where
  "alwaysLabel = ''always''"

text \<open>
  Modelled from the spec: \<open>config.SetSleepIntervalSec\<close>, missing with package config.
  Section 4.1: an allowed value is stored exactly; section 7: an invalid value is
  rejected at the setter and the prior state retained.
\<close>

definition SetSleepIntervalSec :: "int \<Rightarrow> Config \<Rightarrow> Config" where
  "SetSleepIntervalSec v c = (if v \<in> set allowedIntervals then c\<lparr>SleepInterval := v\<rparr> else c)"

text \<open>
  Modelled from the spec: \<open>config.SetWorkingHoursInterval\<close>, missing with package
  config. Section 4.1: a label of the catalog or the sentinel is stored, any other
  label fails; section 7: the prior state is retained then.
\<close>

definition SetWorkingHoursInterval :: "string \<Rightarrow> Config \<Rightarrow> Config" where
  "SetWorkingHoursInterval l c =
     (if l \<in> set (WorkingHours c) \<or> l = alwaysLabel then c\<lparr>WorkingHoursInterval := l\<rparr> else c)"

subsection \<open>tray.go\<close>

definition loadIcon :: "embed_FS \<Rightarrow> go_error + byte list" where
  "loadIcon iconFile =
     (case iconFile ''icon.png'' of
        Inl err \<Rightarrow> Inl err
      | Inr file \<Rightarrow> (case file of Inl err \<Rightarrow> Inl err | Inr data \<Rightarrow> Inr data))"

text \<open>
  \<open>NewTray\<close> on a systray library that has created nothing yet. The mouse
  controller it stores is known to the model only by the goroutines started on it.
\<close>

definition NewTray :: "Config \<Rightarrow> state" where
  "NewTray c =
     \<lparr>config = c, intervalItems = [], workingHoursMenuItems = [], menu = [], separators = 0,
      templateIcon = None, trayTooltip = [], quitCalled = False, moveMouseRuns = 0,
      openedPages = [], looping = False\<rparr>"

definition addIntervalItem :: "item_ptr \<Rightarrow> string \<Rightarrow> int \<Rightarrow> state \<Rightarrow> state" where
  "addIntervalItem p t interval s =
     (let (item, s) = AddSubMenuItem p t (''Set interval to '' @ t) s
      in s\<lparr>intervalItems := AList.update interval item (intervalItems s)\<rparr>)"

definition addWorkingHoursItems :: "item_ptr \<Rightarrow> string \<Rightarrow> state \<Rightarrow> state" where
  "addWorkingHoursItems p interval s =
     (let (item, s) = AddSubMenuItem p interval interval s
      in s\<lparr>workingHoursMenuItems := AList.update interval item (workingHoursMenuItems s)\<rparr>)"

text \<open>
  The two loops over a map visit every entry once. Go leaves the order open; the model
  visits the entries in the order of the association list, and while no two entries
  hold the same item the result is the same in every order (lemma
  \<open>setChecks_order\<close> below).
\<close>

definition updateIntervalChecks :: "int \<Rightarrow> state \<Rightarrow> state" where
  "updateIntervalChecks selectedInterval s =
     fold (\<lambda>(interval, item) s. if interval = selectedInterval then Check item s else Uncheck item s)
       (intervalItems s) s"

definition updateNightModeIntervalChecks :: "string \<Rightarrow> state \<Rightarrow> state" where
  "updateNightModeIntervalChecks selectedInterval s =
     fold (\<lambda>(interval, item) s. if interval = selectedInterval then Check item s else Uncheck item s)
       (workingHoursMenuItems s) s"

text \<open>
  \<open>onReady\<close> up to the start of the loop. A method called on the nil pointer that a
  map gives for a missing key panics; the state of the panic is the state reached so far.
\<close>

definition onReady :: "embed_FS \<Rightarrow> state \<Rightarrow> (panic \<times> state) + (locals \<times> state)" where
  "onReady iconFile s =
     (case loadIcon iconFile of
        Inl err \<Rightarrow> Inl (CouldNotLoadIcon err, s)
      | Inr icon \<Rightarrow>
         (let s = SetTemplateIcon icon icon s;
              s = SetTooltip ''Enable or Disable periodic mouse movements'' s;
              (mEnable, s) = AddMenuItem ''Enable'' ''Enable mouse movement'' s;
              (mDisable, s) = AddMenuItem ''Disable'' ''Disable mouse movement'' s;
              (mInterval, s) = AddMenuItem ''Check Interval'' ''Set mouse movement interval'' s;
              (mWorkingHours, s) = AddMenuItem ''Working hours'' ''Select a range of working hours'' s;
              s = AddSeparator s;
              (mAbout, s) = AddMenuItem ''About'' ''Open GitHub repo'' s;
              (mQuit, s) = AddMenuItem ''Quit'' ''Quit the application'' s;
              s = (if Enabled (config s) then Hide mEnable s else Hide mDisable s);
              s = addIntervalItem mInterval ''10-60 sec'' (- 1) s;
              s = addIntervalItem mInterval ''30 sec'' 30 s;
              s = addIntervalItem mInterval ''60 sec'' 60 s
          in case map_of (intervalItems s) (SleepInterval (config s)) of
               None \<Rightarrow> Inl (NilPointerDereference, s)
             | Some item \<Rightarrow>
                (let s = Check item s;
                     s = fold (addWorkingHoursItems mWorkingHours) (WorkingHours (config s)) s
                 in case map_of (workingHoursMenuItems s) (WorkingHoursInterval (config s)) of
                      None \<Rightarrow> Inl (NilPointerDereference, s)
                    | Some item \<Rightarrow>
                       (let s = Check item s;
                            s = s\<lparr>looping := True\<rparr>;
                            s = (if Enabled (config s)
                                 then s\<lparr>moveMouseRuns := Suc (moveMouseRuns s)\<rparr> else s)
                        in Inr (\<lparr>mEnable = mEnable, mDisable = mDisable, mInterval = mInterval,
                                 mWorkingHours = mWorkingHours, mAbout = mAbout, mQuit = mQuit\<rparr>,
                                s)))))"

text \<open>One round of the loop: the body of the \<open>case\<close> that received the event.\<close>

fun coordinator :: "locals \<Rightarrow> state \<Rightarrow> event \<Rightarrow> state" where
  "coordinator L s EnableClicked =
     (let s = s\<lparr>config := (config s)\<lparr>Enabled := True\<rparr>\<rparr>;
          s = Hide (mEnable L) s;
          s = Show (mDisable L) s;
          s = Enable (mInterval L) s;
          s = Enable (mWorkingHours L) s
      in s\<lparr>moveMouseRuns := Suc (moveMouseRuns s)\<rparr>)"
| "coordinator L s DisableClicked =
     (let s = s\<lparr>config := (config s)\<lparr>Enabled := False\<rparr>\<rparr>;
          s = Hide (mDisable L) s;
          s = Show (mEnable L) s;
          s = Disable (mInterval L) s
      in Disable (mWorkingHours L) s)"
| "coordinator L s (IntervalClicked interval) =
     (let s = s\<lparr>config := SetSleepIntervalSec interval (config s)\<rparr>
      in updateIntervalChecks interval s)"
| "coordinator L s (WorkingHoursClicked workingHoursInterval) =
     (let s = s\<lparr>config := SetWorkingHoursInterval workingHoursInterval (config s)\<rparr>
      in updateNightModeIntervalChecks (WorkingHoursInterval (config s)) s)"
| "coordinator L s AboutClicked = s\<lparr>openedPages := openedPages s @ [GitRepo (config s)]\<rparr>"
| "coordinator L s QuitClicked = (Quit s)\<lparr>looping := False\<rparr>"

text \<open>
  The loop over the events it receives, in the order it receives them; after
  \<open>return\<close> nothing is received any more.
\<close>

fun run :: "locals \<Rightarrow> state \<Rightarrow> event list \<Rightarrow> state" where
  "run L s [] = s"
| "run L s (e # es) = (if looping s then run L (coordinator L s e) es else s)"

text \<open>
  The two functions that create the click channels start one goroutine per entry of the
  map, which forwards every click on the entry's item as the entry's key. So a click
  on the item \<open>p\<close> arrives at the loop as the keys of the entries whose item is
  \<open>p\<close>; the clicks on the four items that the \<open>select\<close> reads itself arrive as they
  are, and a click on any other item arrives nowhere. The maps do not change once the
  channels exist.
\<close>

definition createIntervalClicksChannel :: "state \<Rightarrow> item_ptr \<Rightarrow> int list" where
  "createIntervalClicksChannel s p =
     map fst (filter (\<lambda>(interval, item). item = p) (intervalItems s))"

definition createWorkingHoursIntervalClicksChannel :: "state \<Rightarrow> item_ptr \<Rightarrow> string list" where
  "createWorkingHoursIntervalClicksChannel s p =
     map fst (filter (\<lambda>(interval, item). item = p) (workingHoursMenuItems s))"

definition received :: "locals \<Rightarrow> state \<Rightarrow> item_ptr \<Rightarrow> event list" where
  "received L s p =
     (if p = mEnable L then [EnableClicked] else []) @
     (if p = mDisable L then [DisableClicked] else []) @
     map IntervalClicked (createIntervalClicksChannel s p) @
     map WorkingHoursClicked (createWorkingHoursIntervalClicksChannel s p) @
     (if p = mAbout L then [AboutClicked] else []) @
     (if p = mQuit L then [QuitClicked] else [])"

subsection \<open>The time window and the scheduler's tick\<close>

text \<open>
  The time-window evaluator and the loop of \<open>mouse.Controller.MoveMouse\<close> are in
  package mouse, which is not among the sources; they are modelled from sections 4.2
  and 4.3 of the spec. A time of day is counted in minutes since midnight, the
  resolution of the labels.
\<close>

text \<open>
  Modelled from the spec: the value of a decimal digit, for the labels that the missing
  evaluator parses.
\<close>

definition digit :: "char \<Rightarrow> nat option" where
  "digit ch =
     (if ch = CHR ''0'' then Some 0 else if ch = CHR ''1'' then Some 1
      else if ch = CHR ''2'' then Some 2 else if ch = CHR ''3'' then Some 3
      else if ch = CHR ''4'' then Some 4 else if ch = CHR ''5'' then Some 5
      else if ch = CHR ''6'' then Some 6 else if ch = CHR ''7'' then Some 7
      else if ch = CHR ''8'' then Some 8 else if ch = CHR ''9'' then Some 9
      else None)"

text \<open>
  Modelled from the spec: the time of day \<open>h:m\<close> in minutes, for the missing
  evaluator.
\<close>

definition clock :: "nat \<Rightarrow> nat \<Rightarrow> nat" where
  "clock h m = h * 60 + m"

text \<open>
  Modelled from the spec: parsing one time of day of a label, missing with the
  evaluator. The spec writes the times as two digits of hours, a colon and two digits
  of minutes ("09:00", "22:00").
\<close>

fun parseClock :: "string \<Rightarrow> nat option" where
  "parseClock [h1, h2, sep, m1, m2] =
     (case (digit h1, digit h2, digit m1, digit m2) of
        (Some a, Some b, Some x, Some y) \<Rightarrow>
          if sep = CHR '':'' \<and> 10 * a + b < 24 \<and> 10 * x + y < 60
          then Some (clock (10 * a + b) (10 * x + y)) else None
      | _ \<Rightarrow> None)"
| "parseClock _ = None"

text \<open>
  Modelled from the spec: parsing the start and the end that a label encodes, missing
  with the evaluator. The spec writes such labels "09:00-17:00" and "22:00-06:00".
\<close>

definition parseRange :: "string \<Rightarrow> (nat \<times> nat) option" where
  "parseRange label =
     (if length label = 11 \<and> label ! 5 = CHR ''-''
      then (case (parseClock (take 5 label), parseClock (drop 6 label)) of
              (Some start, Some stop) \<Rightarrow> Some (start, stop)
            | _ \<Rightarrow> None)
      else None)"

text \<open>
  Modelled from the spec: the time-window evaluator, missing with package mouse.
  Section 4.2: the sentinel label always permits; any other label is parsed, and
  movement is permitted when the time of day is in \<open>[start, end)\<close>, a range with
  \<open>start > end\<close> spanning midnight; a label that cannot be parsed permits nothing.
\<close>

definition movementPermitted :: "nat \<Rightarrow> string \<Rightarrow> bool" where
  "movementPermitted now label =
     (if label = alwaysLabel then True
      else (case parseRange label of
              None \<Rightarrow> False
            | Some (start, stop) \<Rightarrow>
                if start > stop then start \<le> now \<or> now < stop
                else start \<le> now \<and> now < stop))"

text \<open>
  Modelled from the spec: what one tick of the missing scheduler loop does when its wait
  is over. Section 4.3, steps 3 to 6: it reads the configuration again, ends the loop
  when it is no longer enabled, skips the movement outside the window, and moves the
  pointer otherwise.
\<close>

datatype tick = Terminated | Skipped | Moved

definition MoveMouse_tick :: "Config \<Rightarrow> nat \<Rightarrow> tick" where
  "MoveMouse_tick c now =
     (if \<not> Enabled c then Terminated
      else if \<not> movementPermitted now (WorkingHoursInterval c) then Skipped
      else Moved)"

section \<open>Properties\<close>

subsection \<open>Notions used in the statements\<close>

text \<open>
  The six variables of \<open>onReady\<close> point to six different items of the top-level menu.
\<close>

definition top_items :: "locals \<Rightarrow> state \<Rightarrow> bool" where
  "top_items L s \<longleftrightarrow>
     distinct [mEnable L, mDisable L, mInterval L, mWorkingHours L, mAbout L, mQuit L] \<and>
     (\<forall>p \<in> set [mEnable L, mDisable L, mInterval L, mWorkingHours L, mAbout L, mQuit L].
        p < length (menu s) \<and> parent (menu s ! p) = None)"

text \<open>
  The items of the submenu under \<open>p\<close> that carry a checkmark, as the list of their
  pointers in creation order.
\<close>

definition checkedItems :: "item_ptr \<Rightarrow> state \<Rightarrow> item_ptr list" where
  "checkedItems p s =
     filter (\<lambda>i. parent (menu s ! i) = Some p \<and> checked (menu s ! i)) [0..<length (menu s)]"

text \<open>
  A map from keys to items of the submenu under \<open>p\<close> is well formed when no key and
  no item occurs twice in it and every item exists and was added under \<open>p\<close>. The
  key \<open>sel\<close> is marked when the map has an item for it and, among the items under
  \<open>p\<close>, exactly that one carries a checkmark.
\<close>

definition items_wf :: "item_ptr \<Rightarrow> ('k \<times> item_ptr) list \<Rightarrow> MenuItem list \<Rightarrow> bool" where
  "items_wf p m M \<longleftrightarrow>
     distinct (map fst m) \<and> distinct (map snd m) \<and>
     (\<forall>x \<in> set m. snd x < length M \<and> parent (M ! snd x) = Some p)"

definition marked :: "item_ptr \<Rightarrow> ('k \<times> item_ptr) list \<Rightarrow> 'k \<Rightarrow> MenuItem list \<Rightarrow> bool" where
  "marked p m sel M \<longleftrightarrow>
     (\<exists>h. map_of m sel = Some h \<and>
        (\<forall>i < length M. parent (M ! i) = Some p \<longrightarrow> (checked (M ! i) \<longleftrightarrow> i = h)))"

text \<open>
  The invariant of the loop: both maps are well formed, their keys are the three
  intervals and the catalog of working hours, and the marked keys are the interval and
  the label of the configuration.
\<close>

definition tray_inv :: "locals \<Rightarrow> state \<Rightarrow> bool" where
  "tray_inv L s \<longleftrightarrow>
     mInterval L \<noteq> mWorkingHours L \<and>
     items_wf (mInterval L) (intervalItems s) (menu s) \<and>
     items_wf (mWorkingHours L) (workingHoursMenuItems s) (menu s) \<and>
     fst ` set (intervalItems s) = set allowedIntervals \<and>
     fst ` set (workingHoursMenuItems s) = set (WorkingHours (config s)) \<and>
     marked (mInterval L) (intervalItems s) (SleepInterval (config s)) (menu s) \<and>
     marked (mWorkingHours L) (workingHoursMenuItems s) (WorkingHoursInterval (config s)) (menu s)"

text \<open>
  The events that the click channels can deliver: an interval or a label arrives only
  as the key of an entry of its map.
\<close>

definition deliverable :: "state \<Rightarrow> event \<Rightarrow> bool" where
  "deliverable s e =
     (case e of
        IntervalClicked v \<Rightarrow> v \<in> fst ` set (intervalItems s)
      | WorkingHoursClicked l \<Rightarrow> l \<in> fst ` set (workingHoursMenuItems s)
      | _ \<Rightarrow> True)"

text \<open>
  What the two loops over a map do to the list of menu items: every entry sets the
  checkmark of its item to whether its key is the selected one.
\<close>

definition setChecks :: "'k \<Rightarrow> ('k \<times> item_ptr) list \<Rightarrow> MenuItem list \<Rightarrow> MenuItem list" where
  "setChecks sel m M = fold (\<lambda>(k, h) M. M[h := (M ! h)\<lparr>checked := (k = sel)\<rparr>]) m M"

text \<open>
  The two halves of \<open>onReady\<close>: up to the last interval item (lines 61 to 84), and
  from the first checkmark on (lines 87 to 138).
\<close>

definition startup_menu :: "byte list \<Rightarrow> state \<Rightarrow> locals \<times> state" where
  "startup_menu icon s =
     (let s = SetTemplateIcon icon icon s;
          s = SetTooltip ''Enable or Disable periodic mouse movements'' s;
          (mEnable, s) = AddMenuItem ''Enable'' ''Enable mouse movement'' s;
          (mDisable, s) = AddMenuItem ''Disable'' ''Disable mouse movement'' s;
          (mInterval, s) = AddMenuItem ''Check Interval'' ''Set mouse movement interval'' s;
          (mWorkingHours, s) = AddMenuItem ''Working hours'' ''Select a range of working hours'' s;
          s = AddSeparator s;
          (mAbout, s) = AddMenuItem ''About'' ''Open GitHub repo'' s;
          (mQuit, s) = AddMenuItem ''Quit'' ''Quit the application'' s;
          s = (if Enabled (config s) then Hide mEnable s else Hide mDisable s);
          s = addIntervalItem mInterval ''10-60 sec'' (- 1) s;
          s = addIntervalItem mInterval ''30 sec'' 30 s;
          s = addIntervalItem mInterval ''60 sec'' 60 s
      in (\<lparr>mEnable = mEnable, mDisable = mDisable, mInterval = mInterval,
           mWorkingHours = mWorkingHours, mAbout = mAbout, mQuit = mQuit\<rparr>,
          s))"

definition startup_marks :: "locals \<Rightarrow> state \<Rightarrow> (panic \<times> state) + (locals \<times> state)" where
  "startup_marks L s =
     (case map_of (intervalItems s) (SleepInterval (config s)) of
        None \<Rightarrow> Inl (NilPointerDereference, s)
      | Some item \<Rightarrow>
         (let s = Check item s;
              s = fold (addWorkingHoursItems (mWorkingHours L)) (WorkingHours (config s)) s
          in case map_of (workingHoursMenuItems s) (WorkingHoursInterval (config s)) of
               None \<Rightarrow> Inl (NilPointerDereference, s)
             | Some item \<Rightarrow>
                (let s = Check item s;
                     s = s\<lparr>looping := True\<rparr>;
                     s = (if Enabled (config s)
                          then s\<lparr>moveMouseRuns := Suc (moveMouseRuns s)\<rparr> else s)
                 in Inr (L, s))))"

text \<open>
  On a fresh tray the first half gives these pointers and this menu; the working-hours
  items that follow get the next pointers, a later item replacing an earlier one with
  the same label in the map.
\<close>

definition readyLocals :: locals where
  "readyLocals =
     \<lparr>mEnable = 0, mDisable = 1, mInterval = 2, mWorkingHours = 3, mAbout = 4, mQuit = 5\<rparr>"

definition readyMenu :: "bool \<Rightarrow> MenuItem list" where
  "readyMenu on =
     [(new_item ''Enable'' ''Enable mouse movement'' None)\<lparr>hidden := on\<rparr>,
      (new_item ''Disable'' ''Disable mouse movement'' None)\<lparr>hidden := \<not> on\<rparr>,
      new_item ''Check Interval'' ''Set mouse movement interval'' None,
      new_item ''Working hours'' ''Select a range of working hours'' None,
      new_item ''About'' ''Open GitHub repo'' None,
      new_item ''Quit'' ''Quit the application'' None,
      new_item ''10-60 sec'' ''Set interval to 10-60 sec'' (Some 2),
      new_item ''30 sec'' ''Set interval to 30 sec'' (Some 2),
      new_item ''60 sec'' ''Set interval to 60 sec'' (Some 2)]"

fun addAll :: "nat \<Rightarrow> 'k list \<Rightarrow> ('k \<times> item_ptr) list \<Rightarrow> ('k \<times> item_ptr) list" where
  "addAll n [] m = m"
| "addAll n (w # ws) m = addAll (Suc n) ws (AList.update w n m)"

text \<open>
  Examples: a configuration, the state that \<open>onReady\<close> leaves for it, an embedded
  file system that holds the icon and one that does not.
\<close>

definition exampleConfig :: "bool \<Rightarrow> Config" where
  "exampleConfig on =
     \<lparr>Enabled = on, GitRepo = ''https://github.com/sonjek/mouse-stay-up'', SleepInterval = 30,
      WorkingHoursInterval = ''always'',
      WorkingHours = [''always'', ''09:00-17:00'', ''22:00-06:00'']\<rparr>"

definition exampleReady :: state where
  "exampleReady =
     \<lparr>config = exampleConfig True,
      intervalItems = [(- 1, 6), (30, 7), (60, 8)],
      workingHoursMenuItems = [(''always'', 9), (''09:00-17:00'', 10), (''22:00-06:00'', 11)],
      menu = (readyMenu True)[7 := (readyMenu True ! 7)\<lparr>checked := True\<rparr>] @
             [(new_item ''always'' ''always'' (Some 3))\<lparr>checked := True\<rparr>,
              new_item ''09:00-17:00'' ''09:00-17:00'' (Some 3),
              new_item ''22:00-06:00'' ''22:00-06:00'' (Some 3)],
      separators = 1,
      templateIcon = Some ([137, 80, 78, 71], [137, 80, 78, 71]),
      trayTooltip = ''Enable or Disable periodic mouse movements'',
      quitCalled = False, moveMouseRuns = 1, openedPages = [], looping = True\<rparr>"

definition embeddedIcon :: embed_FS where
  "embeddedIcon name =
     (if name = ''icon.png'' then Inr (Inr [137, 80, 78, 71]) else Inl ''file does not exist'')"

definition missingIcon :: embed_FS where
  "missingIcon name = Inl ''file does not exist''"

subsection \<open>Menu items and checkmarks\<close>

lemmas item_defs = Hide_def Show_def Enable_def Disable_def Check_def Uncheck_def

lemma upd_item_fields [simp]:
  "config (upd_item p f s) = config s"
  "intervalItems (upd_item p f s) = intervalItems s"
  "workingHoursMenuItems (upd_item p f s) = workingHoursMenuItems s"
  "separators (upd_item p f s) = separators s"
  "templateIcon (upd_item p f s) = templateIcon s"
  "trayTooltip (upd_item p f s) = trayTooltip s"
  "quitCalled (upd_item p f s) = quitCalled s"
  "moveMouseRuns (upd_item p f s) = moveMouseRuns s"
  "openedPages (upd_item p f s) = openedPages s"
  "looping (upd_item p f s) = looping s"
  "length (menu (upd_item p f s)) = length (menu s)"
  by (simp_all add: upd_item_def)

lemma upd_item_nth:
  "menu (upd_item p f s) ! q = (if q = p \<and> p < length (menu s) then f (menu s ! q) else menu s ! q)"
  by (cases "p < length (menu s)") (auto simp: upd_item_def nth_list_update list_update_beyond)

lemma upd_item_config [simp]:
  "upd_item p f (s\<lparr>config := c\<rparr>) = (upd_item p f s)\<lparr>config := c\<rparr>"
  by (simp add: upd_item_def)

lemma upd_item_keeps_field:
  "(\<And>x. parent (f x) = parent x) \<Longrightarrow> parent (menu (upd_item q f s) ! i) = parent (menu s ! i)"
  "(\<And>x. checked (f x) = checked x) \<Longrightarrow> checked (menu (upd_item q f s) ! i) = checked (menu s ! i)"
  by (simp_all add: upd_item_nth)

text \<open>
  The loops over a map, on the list of menu items: what they leave at every index, that
  running one twice is running it once, and that the order in which the entries are
  visited (which Go leaves open) does not matter when no item occurs twice.
\<close>

lemma check_or_uncheck:
  "(if k = sel then Check h s else Uncheck h s) =
   s\<lparr>menu := (menu s)[h := (menu s ! h)\<lparr>checked := (k = sel)\<rparr>]\<rparr>"
  by (simp add: item_defs upd_item_def)

lemma fold_menu_updates:
  "fold (\<lambda>(k, h) s. s\<lparr>menu := (menu s)[h := (menu s ! h)\<lparr>checked := (k = sel)\<rparr>]\<rparr>) m s =
   s\<lparr>menu := setChecks sel m (menu s)\<rparr>"
  by (induction m arbitrary: s) (auto simp: setChecks_def)

lemma fold_checks:
  "fold (\<lambda>(k, h) s. if k = sel then Check h s else Uncheck h s) m s =
   s\<lparr>menu := setChecks sel m (menu s)\<rparr>"
  by (simp add: check_or_uncheck fold_menu_updates)

lemma updateIntervalChecks_menu:
  "updateIntervalChecks sel s = s\<lparr>menu := setChecks sel (intervalItems s) (menu s)\<rparr>"
  by (simp add: updateIntervalChecks_def fold_checks)

lemma updateNightModeIntervalChecks_menu:
  "updateNightModeIntervalChecks sel s = s\<lparr>menu := setChecks sel (workingHoursMenuItems s) (menu s)\<rparr>"
  by (simp add: updateNightModeIntervalChecks_def fold_checks)

lemma setChecks_snoc:
  "setChecks sel (m @ [(k, h)]) M =
   (setChecks sel m M)[h := (setChecks sel m M ! h)\<lparr>checked := (k = sel)\<rparr>]"
  by (simp add: setChecks_def)

lemma length_setChecks [simp]: "length (setChecks sel m M) = length M"
  by (induction m rule: rev_induct) (auto simp: setChecks_snoc, simp add: setChecks_def)

lemma setChecks_nth:
  "i < length M \<Longrightarrow>
   setChecks sel m M ! i =
     (case map_of (rev (map prod.swap m)) i of
        None \<Rightarrow> M ! i
      | Some k \<Rightarrow> (M ! i)\<lparr>checked := (k = sel)\<rparr>)"
proof (induction m rule: rev_induct)
  case Nil
  show ?case by (simp add: setChecks_def)
next
  case (snoc x m)
  obtain k h where x: "x = (k, h)" by (cases x)
  show ?case
    using snoc by (auto simp: x setChecks_snoc nth_list_update split: option.splits)
qed

lemma setChecks_idem: "setChecks sel m (setChecks sel m M) = setChecks sel m M"
  by (rule nth_equalityI) (simp_all add: setChecks_nth split: option.splits)

lemma same_value_same_key:
  "distinct (map snd m) \<Longrightarrow> (k, h) \<in> set m \<Longrightarrow> (k', h) \<in> set m \<Longrightarrow> k = k'"
  by (induction m) (auto simp: image_iff)

lemma setChecks_in:
  assumes "distinct (map snd m)" and "(k, h) \<in> set m" and "h < length M"
  shows "setChecks sel m M ! h = (M ! h)\<lparr>checked := (k = sel)\<rparr>"
proof -
  have "distinct (map fst (rev (map prod.swap m)))"
    using assms(1) by (simp add: rev_map[symmetric] comp_def)
  moreover have "(h, k) \<in> set (rev (map prod.swap m))"
    using assms(2) by force
  ultimately have "map_of (rev (map prod.swap m)) h = Some k"
    by (rule map_of_is_SomeI)
  then show ?thesis
    using assms(3) by (simp add: setChecks_nth)
qed

lemma setChecks_out:
  assumes "i \<notin> snd ` set m" and "i < length M"
  shows "setChecks sel m M ! i = M ! i"
proof -
  have "i \<notin> fst ` set (rev (map prod.swap m))"
    using assms(1) by force
  then have "map_of (rev (map prod.swap m)) i = None"
    by (simp add: map_of_eq_None_iff)
  then show ?thesis
    using assms(2) by (simp add: setChecks_nth)
qed

lemma parent_setChecks:
  "i < length M \<Longrightarrow> parent (setChecks sel m M ! i) = parent (M ! i)"
  by (simp add: setChecks_nth split: option.splits)

lemma setChecks_order:
  assumes "distinct (map snd m)" and "distinct (map snd m')" and "set m' = set m"
  shows "setChecks sel m' M = setChecks sel m M"
proof (rule nth_equalityI)
  show "length (setChecks sel m' M) = length (setChecks sel m M)" by simp
next
  fix i assume "i < length (setChecks sel m' M)"
  then have i: "i < length M" by simp
  show "setChecks sel m' M ! i = setChecks sel m M ! i"
  proof (cases "i \<in> snd ` set m")
    case True
    then obtain k where k: "(k, i) \<in> set m" by force
    with assms(3) have k': "(k, i) \<in> set m'" by simp
    show ?thesis
      by (simp add: setChecks_in[OF assms(1) k i] setChecks_in[OF assms(2) k' i])
  next
    case False
    with assms(3) have "i \<notin> snd ` set m'" by simp
    with False i show ?thesis by (simp add: setChecks_out)
  qed
qed

lemma filter_upt_single:
  assumes "h < n" and "P h" and "\<forall>i<n. P i \<longrightarrow> i = h"
  shows "filter P [0..<n] = [h]"
  using assms
proof (induction n)
  case 0
  then show ?case by simp
next
  case (Suc n)
  show ?case
  proof (cases "h = n")
    case True
    from Suc.prems(3) True have "\<forall>i<n. \<not> P i"
      by (metis less_Suc_eq less_irrefl)
    then have "filter P [0..<n] = []"
      by (simp add: filter_empty_conv)
    with True Suc.prems(2) show ?thesis by simp
  next
    case False
    with Suc.prems(1) have hn: "h < n" by simp
    from Suc.prems(3) False have notn: "\<not> P n"
      by (metis lessI)
    from Suc.prems(3) have "\<forall>i<n. P i \<longrightarrow> i = h"
      by (metis less_Suc_eq)
    with hn Suc.prems(2) have "filter P [0..<n] = [h]"
      by (rule Suc.IH)
    with notn show ?thesis by simp
  qed
qed

lemma marked_checkedItems:
  assumes "items_wf p m (menu s)" and "marked p m sel (menu s)"
  shows "\<exists>h. map_of m sel = Some h \<and> checkedItems p s = [h]"
proof -
  from assms(2) obtain h where h: "map_of m sel = Some h"
    and only: "\<forall>i < length (menu s). parent (menu s ! i) = Some p \<longrightarrow>
                 (checked (menu s ! i) \<longleftrightarrow> i = h)"
    unfolding marked_def by blast
  from h have "(sel, h) \<in> set m" by (rule map_of_SomeD)
  with assms(1) have hp: "h < length (menu s)" "parent (menu s ! h) = Some p"
    by (auto simp: items_wf_def)
  have "checkedItems p s = [h]"
    unfolding checkedItems_def
    by (rule filter_upt_single) (use hp only in auto)
  with h show ?thesis by simp
qed

lemma marked_checked:
  assumes "items_wf p m M" and "marked p m sel M"
  shows "\<exists>h. map_of m sel = Some h \<and> checked (M ! h)"
proof -
  from assms(2) obtain h where h: "map_of m sel = Some h"
    and only: "\<forall>i < length M. parent (M ! i) = Some p \<longrightarrow> (checked (M ! i) \<longleftrightarrow> i = h)"
    unfolding marked_def by blast
  from h have "(sel, h) \<in> set m" by (rule map_of_SomeD)
  with assms(1) have "h < length M" "parent (M ! h) = Some p"
    by (auto simp: items_wf_def)
  with only have "checked (M ! h)" by simp
  with h show ?thesis by blast
qed

lemma items_wf_setChecks:
  "items_wf p m' M \<Longrightarrow> items_wf p m' (setChecks sel m M)"
  by (simp add: items_wf_def parent_setChecks)

lemma marked_setChecks:
  assumes wf: "items_wf p m M" and sel: "sel \<in> fst ` set m" and old: "marked p m sel' M"
  shows "marked p m sel (setChecks sel m M)"
proof -
  from wf have df: "distinct (map fst m)" and ds: "distinct (map snd m)"
    by (simp_all add: items_wf_def)
  from sel obtain h where h: "(sel, h) \<in> set m" by force
  with df have look: "map_of m sel = Some h" by simp
  from old obtain h' where h': "map_of m sel' = Some h'"
    and only: "\<forall>i < length M. parent (M ! i) = Some p \<longrightarrow> (checked (M ! i) \<longleftrightarrow> i = h')"
    unfolding marked_def by blast
  from h' have h'_in: "h' \<in> snd ` set m" by (force dest: map_of_SomeD)
  have "checked (setChecks sel m M ! i) \<longleftrightarrow> i = h"
    if i: "i < length M" and par: "parent (setChecks sel m M ! i) = Some p" for i
  proof (cases "i \<in> snd ` set m")
    case True
    then obtain k where k: "(k, i) \<in> set m" by force
    have "k = sel \<longleftrightarrow> i = h"
    proof
      assume "k = sel"
      with k have "(sel, i) \<in> set m" by simp
      from eq_key_imp_eq_value[OF df this h] show "i = h" .
    next
      assume "i = h"
      with k have "(k, h) \<in> set m" by simp
      with ds show "k = sel" using h by (rule same_value_same_key)
    qed
    then show ?thesis
      using setChecks_in[OF ds k i] by simp
  next
    case False
    with h'_in have "i \<noteq> h'" by auto
    moreover from False h have "i \<noteq> h" by force
    moreover from par i have "parent (M ! i) = Some p" by (simp add: parent_setChecks)
    ultimately show ?thesis
      using only i setChecks_out[OF False i] by simp
  qed
  then have "\<forall>i < length (setChecks sel m M).
      parent (setChecks sel m M ! i) = Some p \<longrightarrow> (checked (setChecks sel m M ! i) \<longleftrightarrow> i = h)"
    by simp
  with look show ?thesis
    unfolding marked_def by blast
qed

lemma marked_setChecks_other:
  assumes wf: "items_wf p m M" and ne: "p \<noteq> q" and old: "marked q m' sel' M"
  shows "marked q m' sel' (setChecks sel m M)"
proof -
  from old obtain h where h: "map_of m' sel' = Some h"
    and only: "\<forall>i < length M. parent (M ! i) = Some q \<longrightarrow> (checked (M ! i) \<longleftrightarrow> i = h)"
    unfolding marked_def by blast
  have "checked (setChecks sel m M ! i) \<longleftrightarrow> i = h"
    if i: "i < length M" and par: "parent (setChecks sel m M ! i) = Some q" for i
  proof -
    from par i have q: "parent (M ! i) = Some q" by (simp add: parent_setChecks)
    with wf ne have "i \<notin> snd ` set m" by (auto simp: items_wf_def)
    then have "setChecks sel m M ! i = M ! i" using i by (rule setChecks_out)
    with only i q show ?thesis by simp
  qed
  then have "\<forall>i < length (setChecks sel m M).
      parent (setChecks sel m M ! i) = Some q \<longrightarrow> (checked (setChecks sel m M ! i) \<longleftrightarrow> i = h)"
    by simp
  with h show ?thesis
    unfolding marked_def by blast
qed

subsection \<open>The loop keeps the invariant\<close>

lemma received_deliverable: "e \<in> set (received L s p) \<Longrightarrow> deliverable s e"
  by (force simp: received_def deliverable_def createIntervalClicksChannel_def
      createWorkingHoursIntervalClicksChannel_def split: if_splits)

lemma coordinator_maps:
  "intervalItems (coordinator L s e) = intervalItems s"
  "workingHoursMenuItems (coordinator L s e) = workingHoursMenuItems s"
  by (cases e; simp add: Let_def item_defs Quit_def updateIntervalChecks_menu
      updateNightModeIntervalChecks_menu)+

lemma deliverable_coordinator: "deliverable (coordinator L s e) x = deliverable s x"
  by (cases x) (simp_all add: deliverable_def coordinator_maps)

lemma run_maps:
  "intervalItems (run L s es) = intervalItems s"
  "workingHoursMenuItems (run L s es) = workingHoursMenuItems s"
  by (induction es arbitrary: s; simp add: coordinator_maps)+

lemma upd_item_keeps:
  assumes "\<And>x. parent (f x) = parent x" and "\<And>x. checked (f x) = checked x"
  shows "items_wf p m (menu (upd_item q f s)) = items_wf p m (menu s)"
    and "marked p m sel (menu (upd_item q f s)) = marked p m sel (menu s)"
  by (simp_all add: items_wf_def marked_def upd_item_keeps_field assms)

lemma tray_inv_upd_item:
  assumes "\<And>x. parent (f x) = parent x" and "\<And>x. checked (f x) = checked x"
  shows "tray_inv L (upd_item q f s) = tray_inv L s"
  by (simp add: tray_inv_def upd_item_keeps[of f, OF assms])

lemma tray_inv_frame [simp]:
  "tray_inv L (Hide q s) = tray_inv L s"
  "tray_inv L (Show q s) = tray_inv L s"
  "tray_inv L (Enable q s) = tray_inv L s"
  "tray_inv L (Disable q s) = tray_inv L s"
  "tray_inv L (s\<lparr>config := (config s)\<lparr>Enabled := b\<rparr>\<rparr>) = tray_inv L s"
  "tray_inv L (s\<lparr>moveMouseRuns := n\<rparr>) = tray_inv L s"
  "tray_inv L (s\<lparr>openedPages := ps\<rparr>) = tray_inv L s"
  "tray_inv L (s\<lparr>looping := lp\<rparr>) = tray_inv L s"
  "tray_inv L (Quit s) = tray_inv L s"
  by (simp_all add: item_defs tray_inv_upd_item) (simp_all add: tray_inv_def Quit_def)

lemma coordinator_inv:
  assumes inv: "tray_inv L s" and e: "deliverable s e"
  shows "tray_inv L (coordinator L s e)"
proof (cases e)
  case (IntervalClicked v)
  with e inv have v: "v \<in> fst ` set (intervalItems s)" "v \<in> set allowedIntervals"
    by (auto simp: deliverable_def tray_inv_def)
  from inv have
    "items_wf (mInterval L) (intervalItems s) (setChecks v (intervalItems s) (menu s))"
    "items_wf (mWorkingHours L) (workingHoursMenuItems s) (setChecks v (intervalItems s) (menu s))"
    "marked (mInterval L) (intervalItems s) v (setChecks v (intervalItems s) (menu s))"
    "marked (mWorkingHours L) (workingHoursMenuItems s) (WorkingHoursInterval (config s))
       (setChecks v (intervalItems s) (menu s))"
    using v(1)
    by (auto simp: tray_inv_def intro: items_wf_setChecks marked_setChecks marked_setChecks_other)
  with inv v(2) show ?thesis
    by (simp add: IntervalClicked updateIntervalChecks_menu SetSleepIntervalSec_def tray_inv_def)
next
  case (WorkingHoursClicked l)
  with e inv have l: "l \<in> fst ` set (workingHoursMenuItems s)" "l \<in> set (WorkingHours (config s))"
    by (auto simp: deliverable_def tray_inv_def)
  from inv have ne: "mWorkingHours L \<noteq> mInterval L" by (auto simp: tray_inv_def)
  from inv have
    "items_wf (mInterval L) (intervalItems s) (setChecks l (workingHoursMenuItems s) (menu s))"
    "items_wf (mWorkingHours L) (workingHoursMenuItems s) (setChecks l (workingHoursMenuItems s) (menu s))"
    "marked (mWorkingHours L) (workingHoursMenuItems s) l (setChecks l (workingHoursMenuItems s) (menu s))"
    "marked (mInterval L) (intervalItems s) (SleepInterval (config s))
       (setChecks l (workingHoursMenuItems s) (menu s))"
    using l(1) ne
    by (auto simp: tray_inv_def intro: items_wf_setChecks marked_setChecks marked_setChecks_other)
  with inv l(2) show ?thesis
    by (simp add: WorkingHoursClicked updateNightModeIntervalChecks_menu
        SetWorkingHoursInterval_def tray_inv_def)
qed (use inv in \<open>simp_all add: Let_def\<close>)

lemma run_inv:
  "tray_inv L s \<Longrightarrow> \<forall>e \<in> set es. deliverable s e \<Longrightarrow> tray_inv L (run L s es)"
proof (induction es arbitrary: s)
  case Nil
  then show ?case by simp
next
  case (Cons e es)
  from Cons.prems have "tray_inv L (coordinator L s e)"
    by (simp add: coordinator_inv)
  moreover from Cons.prems have "\<forall>x \<in> set es. deliverable (coordinator L s e) x"
    by (simp add: deliverable_coordinator)
  ultimately have "tray_inv L (run L (coordinator L s e) es)"
    by (rule Cons.IH)
  with Cons.prems(1) show ?case by simp
qed

lemma top_items_cong:
  assumes "length (menu s') = length (menu s)"
    and "\<forall>i < length (menu s). parent (menu s' ! i) = parent (menu s ! i)"
  shows "top_items L s' = top_items L s"
  using assms by (auto simp: top_items_def)

lemma top_items_coordinator: "top_items L s \<Longrightarrow> top_items L (coordinator L s e)"
proof -
  have "top_items L (coordinator L s e) = top_items L s"
    by (rule top_items_cong; cases e)
      (simp_all add: Let_def updateIntervalChecks_menu updateNightModeIntervalChecks_menu
        parent_setChecks item_defs upd_item_keeps_field Quit_def)
  then show "top_items L s \<Longrightarrow> top_items L (coordinator L s e)" by simp
qed

lemma top_items_run: "top_items L s \<Longrightarrow> top_items L (run L s es)"
  by (induction es arbitrary: s) (simp_all add: top_items_coordinator)

subsection \<open>The state that \<open>onReady\<close> leaves\<close>

lemma case_prod_Let:
  "(case (Let a f) of (x, y) \<Rightarrow> g x y) = Let a (\<lambda>v. case f v of (x, y) \<Rightarrow> g x y)"
  by (simp add: Let_def)

lemma case_prod_case_prod:
  "(case (case v of (m, s) \<Rightarrow> f m s) of (x, y) \<Rightarrow> g x y) =
   (case v of (m, s) \<Rightarrow> case f m s of (x, y) \<Rightarrow> g x y)"
  by (simp split: prod.split)

lemma onReady_alt:
  "onReady iconFile s =
     (case loadIcon iconFile of
        Inl err \<Rightarrow> Inl (CouldNotLoadIcon err, s)
      | Inr icon \<Rightarrow> (case startup_menu icon s of (L, s1) \<Rightarrow> startup_marks L s1))"
  unfolding onReady_def startup_menu_def startup_marks_def
  by (simp only: case_prod_Let case_prod_case_prod prod.case locals.simps)

lemma startup_menu_NewTray:
  "startup_menu icon (NewTray c) =
     (readyLocals,
      (NewTray c)\<lparr>intervalItems := [(- 1, 6), (30, 7), (60, 8)], menu := readyMenu (Enabled c),
        separators := 1, templateIcon := Some (icon, icon),
        trayTooltip := ''Enable or Disable periodic mouse movements''\<rparr>)"
  by (cases "Enabled c")
    (simp_all add: startup_menu_def NewTray_def Let_def SetTemplateIcon_def SetTooltip_def
      AddMenuItem_def AddSeparator_def addIntervalItem_def AddSubMenuItem_def Hide_def
      upd_item_def readyMenu_def readyLocals_def new_item_def numeral_2_eq_2)

lemma NewTray_menu:
  "intervalItems (snd (startup_menu icon (NewTray c))) = [(- 1, 6), (30, 7), (60, 8)]"
  "workingHoursMenuItems (snd (startup_menu icon (NewTray c))) = []"
  "menu (snd (startup_menu icon (NewTray c))) = readyMenu (Enabled c)"
  "config (snd (startup_menu icon (NewTray c))) = c"
  "moveMouseRuns (snd (startup_menu icon (NewTray c))) = 0"
  "fst (startup_menu icon (NewTray c)) = readyLocals"
  by (simp_all add: startup_menu_NewTray) (simp_all add: NewTray_def)

lemma onReady_NewTray:
  "loadIcon iconFile = Inr icon \<Longrightarrow>
   onReady iconFile (NewTray c) = startup_marks readyLocals (snd (startup_menu icon (NewTray c)))"
  by (simp add: onReady_alt startup_menu_NewTray)

lemma readyMenu_nth:
  "length (readyMenu on) = 9"
  "\<forall>i<9. parent (readyMenu on ! i) = (if i < 6 then None else Some 2)"
  "\<forall>i<9. \<not> checked (readyMenu on ! i)"
  by (simp_all add: readyMenu_def new_item_def eval_nat_numeral All_less_Suc)

lemma interval_lookup:
  "map_of [(- 1, 6), (30, 7), (60, 8)] (v::int) =
     (if v = - 1 then Some (6::nat) else if v = 30 then Some 7 else if v = 60 then Some 8 else None)"
  by simp

lemma addWorkingHoursItems_eq:
  "addWorkingHoursItems p w s =
     s\<lparr>menu := menu s @ [new_item w w (Some p)],
       workingHoursMenuItems := AList.update w (length (menu s)) (workingHoursMenuItems s)\<rparr>"
  by (simp add: addWorkingHoursItems_def AddSubMenuItem_def)

lemma fold_addWorkingHoursItems:
  "fold (addWorkingHoursItems p) ws s =
     s\<lparr>menu := menu s @ map (\<lambda>w. new_item w w (Some p)) ws,
       workingHoursMenuItems := addAll (length (menu s)) ws (workingHoursMenuItems s)\<rparr>"
  by (induction ws arbitrary: s) (simp_all add: addWorkingHoursItems_eq)

lemma fold_addWorkingHoursItems_fields:
  "config (fold (addWorkingHoursItems p) ws s) = config s"
  "moveMouseRuns (fold (addWorkingHoursItems p) ws s) = moveMouseRuns s"
  "intervalItems (fold (addWorkingHoursItems p) ws s) = intervalItems s"
  by (simp_all add: fold_addWorkingHoursItems)

lemma addAll_keys: "fst ` set (addAll n ws m) = fst ` set m \<union> set ws"
  by (induction ws arbitrary: n m) (auto simp: dom_update)

lemma addAll_distinct_keys: "distinct (map fst m) \<Longrightarrow> distinct (map fst (addAll n ws m))"
  by (induction ws arbitrary: n m) (simp_all add: distinct_update)

lemma set_update_subset: "set (AList.update k v m) \<subseteq> insert (k, v) (set m)"
  by (induction m) auto

lemma values_update_subset: "snd ` set (AList.update k v m) \<subseteq> insert v (snd ` set m)"
  by (induction m) auto

lemma addAll_values:
  "x \<in> set (addAll n ws m) \<Longrightarrow> x \<in> set m \<or> (n \<le> snd x \<and> snd x < n + length ws)"
proof (induction ws arbitrary: n m)
  case Nil
  then show ?case by simp
next
  case (Cons w ws)
  from Cons.prems have "x \<in> set (addAll (Suc n) ws (AList.update w n m))" by simp
  then have "x \<in> set (AList.update w n m) \<or> (Suc n \<le> snd x \<and> snd x < Suc n + length ws)"
    by (rule Cons.IH)
  then show ?case
    using set_update_subset[of w n m] by auto
qed

lemma update_distinct_values:
  "distinct (map snd m) \<Longrightarrow> v \<notin> snd ` set m \<Longrightarrow> distinct (map snd (AList.update k v m))"
proof (induction m)
  case Nil
  then show ?case by simp
next
  case (Cons a m)
  show ?case
  proof (cases "fst a = k")
    case True
    with Cons.prems show ?thesis by simp
  next
    case False
    from Cons.prems have "distinct (map snd (AList.update k v m))"
      by (intro Cons.IH) auto
    moreover from Cons.prems have "snd a \<noteq> v" "snd a \<notin> snd ` set m"
      by auto
    then have "snd a \<notin> snd ` set (AList.update k v m)"
      using values_update_subset[of k v m] by blast
    ultimately show ?thesis using False by simp
  qed
qed

lemma addAll_distinct_values:
  "distinct (map snd m) \<Longrightarrow> \<forall>x \<in> set m. snd x < n \<Longrightarrow> distinct (map snd (addAll n ws m))"
proof (induction ws arbitrary: n m)
  case Nil
  then show ?case by simp
next
  case (Cons w ws)
  from Cons.prems have "n \<notin> snd ` set m" by auto
  with Cons.prems(1) have "distinct (map snd (AList.update w n m))"
    by (rule update_distinct_values)
  moreover have "\<forall>x \<in> set (AList.update w n m). snd x < Suc n"
    using Cons.prems(2) set_update_subset[of w n m] by fastforce
  ultimately have "distinct (map snd (addAll (Suc n) ws (AList.update w n m)))"
    by (rule Cons.IH)
  then show ?case by simp
qed

lemma startup_marks_Inl1:
  "map_of (intervalItems s) (SleepInterval (config s)) = None \<Longrightarrow>
   startup_marks L s = Inl (NilPointerDereference, s)"
  by (simp add: startup_marks_def)

lemma startup_marks_Inl2:
  assumes "map_of (intervalItems s) (SleepInterval (config s)) = Some hi"
    and "map_of (workingHoursMenuItems
           (fold (addWorkingHoursItems (mWorkingHours L)) (WorkingHours (config s)) (Check hi s)))
           (WorkingHoursInterval (config s)) = None"
  shows "startup_marks L s =
    Inl (NilPointerDereference,
         fold (addWorkingHoursItems (mWorkingHours L)) (WorkingHours (config s)) (Check hi s))"
  using assms
  by (simp add: startup_marks_def Let_def fold_addWorkingHoursItems_fields Check_def)

lemma startup_marks_Inr:
  assumes "map_of (intervalItems s) (SleepInterval (config s)) = Some hi"
    and "map_of (workingHoursMenuItems
           (fold (addWorkingHoursItems (mWorkingHours L)) (WorkingHours (config s)) (Check hi s)))
           (WorkingHoursInterval (config s)) = Some h"
  shows "startup_marks L s =
    Inr (L, (Check h (fold (addWorkingHoursItems (mWorkingHours L)) (WorkingHours (config s)) (Check hi s)))
               \<lparr>looping := True,
                moveMouseRuns := (if Enabled (config s) then Suc (moveMouseRuns s) else moveMouseRuns s)\<rparr>)"
  using assms
  by (simp add: startup_marks_def Let_def fold_addWorkingHoursItems_fields Check_def)

lemma ready_state:
  assumes ii: "intervalItems s1 = [(- 1, 6), (30, 7), (60, 8)]"
    and wh: "workingHoursMenuItems s1 = []"
    and M: "menu s1 = readyMenu on"
    and ok: "SleepInterval (config s1) \<in> set allowedIntervals"
      "WorkingHoursInterval (config s1) \<in> set (WorkingHours (config s1))"
  shows "\<exists>s. startup_marks readyLocals s1 = Inr (readyLocals, s) \<and>
           tray_inv readyLocals s \<and> top_items readyLocals s \<and> config s = config s1 \<and> looping s \<and>
           moveMouseRuns s =
             (if Enabled (config s1) then Suc (moveMouseRuns s1) else moveMouseRuns s1)"
proof -
  define c where "c = config s1"
  define ws where "ws = WorkingHours c"
  define news where "news = map (\<lambda>w. new_item w w (Some 3)) ws"
  define whm where "whm = addAll 9 ws ([] :: (string \<times> nat) list)"
  from ok(1) obtain hi where hi: "map_of (intervalItems s1) (SleepInterval (config s1)) = Some hi"
    and hi_range: "6 \<le> hi" "hi < 9"
    by (auto simp: ii allowedIntervals_def)
  define M2 where "M2 = (readyMenu on)[hi := (readyMenu on ! hi)\<lparr>checked := True\<rparr>]"
  define s3 where
    "s3 = fold (addWorkingHoursItems (mWorkingHours readyLocals)) (WorkingHours (config s1)) (Check hi s1)"
  have s3: "config s3 = c" "intervalItems s3 = intervalItems s1" "workingHoursMenuItems s3 = whm"
    "menu s3 = M2 @ news"
    by (simp_all add: s3_def fold_addWorkingHoursItems Check_def upd_item_def M wh
        readyMenu_nth(1) readyLocals_def c_def ws_def news_def whm_def M2_def)
  have keys: "fst ` set whm = set ws" and dk: "distinct (map fst whm)" and dv: "distinct (map snd whm)"
    by (simp_all add: whm_def addAll_keys addAll_distinct_keys addAll_distinct_values)
  have vals: "9 \<le> snd x \<and> snd x < 9 + length ws" if "x \<in> set whm" for x
    using addAll_values[of x 9 ws "[]"] that by (simp add: whm_def)
  from ok(2) have "WorkingHoursInterval c \<in> fst ` set whm"
    by (simp add: keys ws_def c_def)
  then obtain h where h_in: "(WorkingHoursInterval c, h) \<in> set whm" by force
  with dk have h: "map_of whm (WorkingHoursInterval c) = Some h" by simp
  from vals[OF h_in] have h_range: "9 \<le> h" "h < 9 + length ws" by simp_all
  define M4 where "M4 = (M2 @ news)[h := ((M2 @ news) ! h)\<lparr>checked := True\<rparr>]"
  define sF where "sF = (Check h s3)\<lparr>looping := True,
      moveMouseRuns := (if Enabled (config s1) then Suc (moveMouseRuns s1) else moveMouseRuns s1)\<rparr>"
  have res: "startup_marks readyLocals s1 = Inr (readyLocals, sF)"
    unfolding sF_def s3_def
    by (rule startup_marks_Inr[OF hi]) (use h s3(3) in \<open>simp add: s3_def c_def\<close>)
  have sF: "config sF = c" "intervalItems sF = [(- 1, 6), (30, 7), (60, 8)]"
    "workingHoursMenuItems sF = whm" "menu sF = M4" "looping sF"
    by (simp_all add: sF_def Check_def upd_item_def s3 ii M4_def)
  have len2: "length M2 = 9" by (simp add: M2_def readyMenu_nth(1))
  have len: "length M4 = 9 + length ws"
    by (simp add: M4_def len2 news_def)
  have par2: "parent (M2 ! i) = (if i < 6 then None else Some 2)" if "i < 9" for i
    using that readyMenu_nth(1,2)[of on] hi_range
    by (simp add: M2_def nth_list_update)
  have chk2: "checked (M2 ! i) \<longleftrightarrow> i = hi" if "i < 9" for i
    using that readyMenu_nth(1,3)[of on] hi_range
    by (simp add: M2_def nth_list_update)
  have par: "parent (M4 ! i) = (if i < 6 then None else if i < 9 then Some 2 else Some 3)"
    if "i < 9 + length ws" for i
    using that par2[of i]
    by (simp add: M4_def nth_list_update nth_append len2 news_def new_item_def)
  have chk: "checked (M4 ! i) \<longleftrightarrow> i = hi \<or> i = h" if "i < 9 + length ws" for i
    using that chk2[of i] hi_range h_range
    by (auto simp: M4_def nth_list_update nth_append len2 news_def new_item_def)
  have wf_i: "items_wf 2 [(- 1::int, 6), (30, 7), (60, 8)] M4"
    by (simp add: items_wf_def len par)
  have "snd x < length M4 \<and> parent (M4 ! snd x) = Some 3" if "x \<in> set whm" for x
    using vals[OF that] by (simp add: len par)
  then have wf_w: "items_wf 3 whm M4"
    by (simp add: items_wf_def dk dv)
  have m_i: "marked 2 [(- 1::int, 6), (30, 7), (60, 8)] (SleepInterval c) M4"
    unfolding marked_def
  proof (intro exI conjI allI impI)
    show "map_of [(- 1::int, 6), (30, 7), (60, 8)] (SleepInterval c) = Some hi"
      using hi by (simp add: ii c_def)
    fix i assume "i < length M4" and "parent (M4 ! i) = Some 2"
    then show "checked (M4 ! i) = (i = hi)"
      using h_range by (auto simp: len par chk split: if_splits)
  qed
  have m_w: "marked 3 whm (WorkingHoursInterval c) M4"
    unfolding marked_def
  proof (intro exI conjI allI impI)
    show "map_of whm (WorkingHoursInterval c) = Some h" by (rule h)
    fix i assume "i < length M4" and "parent (M4 ! i) = Some 3"
    then show "checked (M4 ! i) = (i = h)"
      using hi_range by (auto simp: len par chk split: if_splits)
  qed
  have "tray_inv readyLocals sF"
    by (simp add: tray_inv_def readyLocals_def sF wf_i wf_w m_i m_w keys ws_def allowedIntervals_def)
  moreover have "top_items readyLocals sF"
    by (simp add: top_items_def readyLocals_def sF len par)
  moreover have "moveMouseRuns sF =
      (if Enabled (config s1) then Suc (moveMouseRuns s1) else moveMouseRuns s1)"
    by (simp add: sF_def)
  ultimately show ?thesis
    using res sF(1,5) by (auto simp: c_def)
qed

lemma onReady_ok:
  assumes "loadIcon iconFile = Inr icon"
    and "SleepInterval c \<in> set allowedIntervals"
    and "WorkingHoursInterval c \<in> set (WorkingHours c)"
  shows "\<exists>s. onReady iconFile (NewTray c) = Inr (readyLocals, s) \<and>
           tray_inv readyLocals s \<and> top_items readyLocals s \<and> config s = c \<and> looping s \<and>
           moveMouseRuns s = (if Enabled c then 1 else 0)"
proof -
  define s1 where "s1 = snd (startup_menu icon (NewTray c))"
  have s1: "intervalItems s1 = [(- 1, 6), (30, 7), (60, 8)]" "workingHoursMenuItems s1 = []"
    "menu s1 = readyMenu (Enabled c)" "config s1 = c" "moveMouseRuns s1 = 0"
    by (simp_all add: s1_def NewTray_menu)
  from assms(2,3) have "SleepInterval (config s1) \<in> set allowedIntervals"
    "WorkingHoursInterval (config s1) \<in> set (WorkingHours (config s1))"
    by (simp_all add: s1(4))
  from ready_state[OF s1(1,2,3) this] obtain s
    where "startup_marks readyLocals s1 = Inr (readyLocals, s)" "tray_inv readyLocals s"
      "top_items readyLocals s" "config s = c" "looping s"
      "moveMouseRuns s = (if Enabled c then 1 else 0)"
    by (auto simp: s1(4,5))
  then show ?thesis
    by (auto simp: onReady_NewTray[OF assms(1)] s1_def)
qed

lemma onReady_nil:
  assumes icon: "loadIcon iconFile = Inr icon"
    and bad: "\<not> (SleepInterval c \<in> set allowedIntervals \<and>
               WorkingHoursInterval c \<in> set (WorkingHours c))"
  shows "\<exists>s. onReady iconFile (NewTray c) = Inl (NilPointerDereference, s)"
proof -
  define s1 where "s1 = snd (startup_menu icon (NewTray c))"
  have s1: "intervalItems s1 = [(- 1, 6), (30, 7), (60, 8)]" "workingHoursMenuItems s1 = []"
    "config s1 = c"
    by (simp_all add: s1_def NewTray_menu)
  show ?thesis
  proof (cases "SleepInterval c \<in> set allowedIntervals")
    case False
    then have "map_of (intervalItems s1) (SleepInterval (config s1)) = None"
      by (simp add: s1 allowedIntervals_def)
    then have "startup_marks readyLocals s1 = Inl (NilPointerDereference, s1)"
      by (rule startup_marks_Inl1)
    then show ?thesis
      by (simp add: onReady_NewTray[OF icon] s1_def)
  next
    case True
    then obtain hi where hi: "map_of (intervalItems s1) (SleepInterval (config s1)) = Some hi"
      by (auto simp: s1 allowedIntervals_def)
    from True bad have "WorkingHoursInterval c \<notin> set (WorkingHours c)" by simp
    then have "map_of (workingHoursMenuItems
           (fold (addWorkingHoursItems (mWorkingHours readyLocals)) (WorkingHours (config s1))
              (Check hi s1)))
           (WorkingHoursInterval (config s1)) = None"
      by (simp add: map_of_eq_None_iff fold_addWorkingHoursItems addAll_keys Check_def s1)
    from startup_marks_Inl2[OF hi this] show ?thesis
      by (simp add: onReady_NewTray[OF icon] s1_def)
  qed
qed

lemma onReady_Inr:
  assumes "onReady iconFile (NewTray c) = Inr (L, s)"
  shows "L = readyLocals \<and> tray_inv L s \<and> top_items L s \<and> config s = c \<and> looping s \<and>
         SleepInterval c \<in> set allowedIntervals \<and>
         WorkingHoursInterval c \<in> set (WorkingHours c)"
proof (cases "loadIcon iconFile")
  case (Inl err)
  with assms show ?thesis by (simp add: onReady_def)
next
  case (Inr icon)
  show ?thesis
  proof (cases "SleepInterval c \<in> set allowedIntervals \<and>
                WorkingHoursInterval c \<in> set (WorkingHours c)")
    case True
    with onReady_ok[OF Inr, of c] assms show ?thesis by auto
  next
    case False
    with onReady_nil[OF Inr, of c] assms show ?thesis by auto
  qed
qed

lemma loadIcon_embeddedIcon: "loadIcon embeddedIcon = Inr [137, 80, 78, 71]"
  by (simp add: loadIcon_def embeddedIcon_def)

subsection \<open>An example run\<close>

text \<open>
  \<open>onReady\<close> on the example configuration, then a click on "60 sec", one on
  "09:00-17:00" and one on Enable.
\<close>

lemma example_addAll:
  "addAll 9 [''always'', ''09:00-17:00'', ''22:00-06:00''] [] =
     [(''always'', 9), (''09:00-17:00'', 10), (''22:00-06:00'', 11)]"
  by (simp add: eval_nat_numeral)

lemma onReady_example:
  "onReady embeddedIcon (NewTray (exampleConfig True)) = Inr (readyLocals, exampleReady)"
proof -
  define s1 where "s1 = snd (startup_menu [137, 80, 78, 71] (NewTray (exampleConfig True)))"
  have s1: "s1 = (NewTray (exampleConfig True))\<lparr>intervalItems := [(- 1, 6), (30, 7), (60, 8)],
        menu := readyMenu True, separators := 1,
        templateIcon := Some ([137, 80, 78, 71], [137, 80, 78, 71]),
        trayTooltip := ''Enable or Disable periodic mouse movements''\<rparr>"
    by (simp add: s1_def startup_menu_NewTray exampleConfig_def)
  have c: "config s1 = exampleConfig True" by (simp add: s1 NewTray_def)
  have hi: "map_of (intervalItems s1) (SleepInterval (config s1)) = Some 7"
    by (simp add: s1 NewTray_def exampleConfig_def)
  have f: "fold (addWorkingHoursItems (mWorkingHours readyLocals)) (WorkingHours (config s1)) (Check 7 s1) =
      (Check 7 s1)\<lparr>menu := menu (Check 7 s1) @
           [new_item ''always'' ''always'' (Some 3),
            new_item ''09:00-17:00'' ''09:00-17:00'' (Some 3),
            new_item ''22:00-06:00'' ''22:00-06:00'' (Some 3)],
         workingHoursMenuItems := [(''always'', 9), (''09:00-17:00'', 10), (''22:00-06:00'', 11)]\<rparr>"
    unfolding fold_addWorkingHoursItems
    by (simp add: c exampleConfig_def readyLocals_def Check_def s1 NewTray_def readyMenu_nth(1)
        example_addAll)
  have h: "map_of (workingHoursMenuItems
        (fold (addWorkingHoursItems (mWorkingHours readyLocals)) (WorkingHours (config s1)) (Check 7 s1)))
        (WorkingHoursInterval (config s1)) = Some 9"
    unfolding f by (simp add: c exampleConfig_def)
  have "startup_marks readyLocals s1 = Inr (readyLocals, exampleReady)"
    unfolding startup_marks_Inr[OF hi h] f
    by (simp add: exampleReady_def Check_def upd_item_def s1 NewTray_def exampleConfig_def
        readyMenu_nth(1) nth_append list_update_append)
  then show ?thesis
    by (simp add: onReady_NewTray[OF loadIcon_embeddedIcon] s1_def)
qed

lemma example_received:
  "concat (map (received readyLocals exampleReady) [8, 10, 0]) =
     [IntervalClicked 60, WorkingHoursClicked ''09:00-17:00'', EnableClicked]"
  by (simp add: received_def createIntervalClicksChannel_def
      createWorkingHoursIntervalClicksChannel_def readyLocals_def exampleReady_def)

lemma top_items_exampleReady: "top_items readyLocals exampleReady"
  using onReady_Inr[OF onReady_example] by blast

lemma example_config:
  "SleepInterval (config (run readyLocals exampleReady
      [IntervalClicked 60, WorkingHoursClicked ''09:00-17:00'', EnableClicked])) = 60"
  "WorkingHoursInterval (config (run readyLocals exampleReady
      [IntervalClicked 60, WorkingHoursClicked ''09:00-17:00'', EnableClicked])) = ''09:00-17:00''"
  by (simp_all add: exampleReady_def exampleConfig_def updateIntervalChecks_menu
      updateNightModeIntervalChecks_menu SetSleepIntervalSec_def SetWorkingHoursInterval_def
      allowedIntervals_def item_defs Let_def)

subsection \<open>Times of day\<close>

text \<open>
  A parsed range lies within the day, and on the clock of 1440 minutes the window from
  \<open>start\<close> to \<open>stop\<close> holds the times that are less than the length of the
  window after \<open>start\<close>.
\<close>

lemma digit_less: "digit ch = Some d \<Longrightarrow> d < 10"
  by (auto simp: digit_def split: if_splits)

lemma parseClock_less: "parseClock t = Some n \<Longrightarrow> n < 1440"
  by (cases t rule: parseClock.cases)
    (auto simp: clock_def split: option.splits if_splits)

lemma parseRange_less: "parseRange label = Some (start, stop) \<Longrightarrow> start < 1440 \<and> stop < 1440"
  by (auto simp: parseRange_def split: if_splits option.splits dest: parseClock_less)

lemma window_on_the_clock:
  fixes start stop now :: nat
  assumes "start < 1440" "stop < 1440" "now < 1440"
  shows "(if start > stop then start \<le> now \<or> now < stop else start \<le> now \<and> now < stop) \<longleftrightarrow>
         (now + 1440 - start) mod 1440 < (stop + 1440 - start) mod 1440"
proof -
  have m: "x mod 1440 = (if x < 1440 then x else x - 1440)" if "x < 2880" for x :: nat
    using that by (simp add: le_mod_geq)
  have "(now + 1440 - start) mod 1440 = (if start \<le> now then now - start else now + 1440 - start)"
    using assms by (simp add: m)
  moreover
  have "(stop + 1440 - start) mod 1440 = (if start \<le> stop then stop - start else stop + 1440 - start)"
    using assms by (simp add: m)
  ultimately show ?thesis
    using assms by (simp split: if_splits) linarith+
qed

section \<open>Main results\<close>

subsection \<open>Enable and Disable\<close>

text \<open>
  C1. In a state where the configuration is disabled, the round of the loop that
  receives a click on Enable sets \<open>Enabled\<close>, hides the Enable item, shows the
  Disable item, enables the interval and the working-hours items, and starts one
  more \<open>MoveMouse\<close> goroutine.
\<close>

theorem enable_event:
  assumes "top_items L s" and "\<not> Enabled (config s)"
  shows "let s' = coordinator L s EnableClicked in
           Enabled (config s') \<and>
           hidden (menu s' ! mEnable L) \<and> \<not> hidden (menu s' ! mDisable L) \<and>
           \<not> disabled (menu s' ! mInterval L) \<and> \<not> disabled (menu s' ! mWorkingHours L) \<and>
           moveMouseRuns s' = Suc (moveMouseRuns s)"
proof -
  from assms(1) have d: "mEnable L \<noteq> mDisable L"
    and r: "mEnable L < length (menu s)" "mDisable L < length (menu s)"
      "mInterval L < length (menu s)" "mWorkingHours L < length (menu s)"
    by (simp_all add: top_items_def)
  show ?thesis
    using d r by (simp add: Let_def item_defs upd_item_nth)
qed

theorem enable_event_witness:
  "top_items readyLocals (coordinator readyLocals exampleReady DisableClicked) \<and>
   \<not> Enabled (config (coordinator readyLocals exampleReady DisableClicked)) \<and>
   Enabled (config (coordinator readyLocals
      (coordinator readyLocals exampleReady DisableClicked) EnableClicked)) \<and>
   moveMouseRuns (coordinator readyLocals
      (coordinator readyLocals exampleReady DisableClicked) EnableClicked) = 2"
proof -
  define s where "s = coordinator readyLocals exampleReady DisableClicked"
  have t: "top_items readyLocals s"
    unfolding s_def using top_items_exampleReady by (rule top_items_coordinator)
  have e: "\<not> Enabled (config s)"
    by (simp add: s_def item_defs)
  have "moveMouseRuns s = 1"
    by (simp add: s_def item_defs exampleReady_def)
  with enable_event[OF t e] t e show ?thesis
    by (simp add: Let_def s_def)
qed

text \<open>
  C2. In a state where the configuration is enabled, the round of the loop that
  receives a click on Disable clears \<open>Enabled\<close>, hides the Disable item, shows the
  Enable item, disables the interval and the working-hours items, and starts no
  goroutine; it does nothing else to the scheduler, whose next tick reads the flag and
  ends its loop.
\<close>

theorem disable_event:
  assumes "top_items L s" and "Enabled (config s)"
  shows "let s' = coordinator L s DisableClicked in
           \<not> Enabled (config s') \<and>
           hidden (menu s' ! mDisable L) \<and> \<not> hidden (menu s' ! mEnable L) \<and>
           disabled (menu s' ! mInterval L) \<and> disabled (menu s' ! mWorkingHours L) \<and>
           moveMouseRuns s' = moveMouseRuns s \<and>
           MoveMouse_tick (config s') now = Terminated"
proof -
  from assms(1) have d: "mEnable L \<noteq> mDisable L"
    and r: "mEnable L < length (menu s)" "mDisable L < length (menu s)"
      "mInterval L < length (menu s)" "mWorkingHours L < length (menu s)"
    by (simp_all add: top_items_def)
  show ?thesis
    using d r by (simp add: Let_def item_defs upd_item_nth MoveMouse_tick_def)
qed

theorem disable_event_witness:
  "top_items readyLocals exampleReady \<and>
   Enabled (config exampleReady) \<and>
   \<not> Enabled (config (coordinator readyLocals exampleReady DisableClicked)) \<and>
   moveMouseRuns (coordinator readyLocals exampleReady DisableClicked) = 1 \<and>
   MoveMouse_tick (config (coordinator readyLocals exampleReady DisableClicked)) (clock 12 0) = Terminated"
proof -
  have e: "Enabled (config exampleReady)"
    by (simp add: exampleReady_def exampleConfig_def)
  have "moveMouseRuns exampleReady = 1"
    by (simp add: exampleReady_def)
  with disable_event[OF top_items_exampleReady e, of "clock 12 0"] top_items_exampleReady e
  show ?thesis
    by (simp add: Let_def)
qed

subsection \<open>Checkmarks\<close>

text \<open>
  C4. After \<open>onReady\<close> has returned and the loop has received the events of any
  sequence of clicks, exactly one item of the interval submenu and exactly one item of
  the working-hours submenu carry a checkmark, namely the items of the interval and of
  the label in the configuration; and after a click on an interval item the
  configuration holds that item's interval.
\<close>

theorem exclusive_checkmarks:
  assumes "onReady iconFile (NewTray c) = Inr (L, s0)"
  shows "let s = run L s0 (concat (map (received L s0) clicks)) in
           (\<exists>h. map_of (intervalItems s) (SleepInterval (config s)) = Some h \<and>
                checkedItems (mInterval L) s = [h]) \<and>
           (\<exists>h. map_of (workingHoursMenuItems s) (WorkingHoursInterval (config s)) = Some h \<and>
                checkedItems (mWorkingHours L) s = [h]) \<and>
           (\<forall>v \<in> set (createIntervalClicksChannel s0 p).
                SleepInterval (config (coordinator L s (IntervalClicked v))) = v)"
proof -
  define s where "s = run L s0 (concat (map (received L s0) clicks))"
  from onReady_Inr[OF assms] have inv0: "tray_inv L s0" by blast
  have "\<forall>e \<in> set (concat (map (received L s0) clicks)). deliverable s0 e"
    by (auto intro: received_deliverable)
  with inv0 have inv: "tray_inv L s"
    unfolding s_def by (rule run_inv)
  then have
    "\<exists>h. map_of (intervalItems s) (SleepInterval (config s)) = Some h \<and>
         checkedItems (mInterval L) s = [h]"
    "\<exists>h. map_of (workingHoursMenuItems s) (WorkingHoursInterval (config s)) = Some h \<and>
         checkedItems (mWorkingHours L) s = [h]"
    by (auto simp: tray_inv_def intro: marked_checkedItems)
  moreover have "SleepInterval (config (coordinator L s (IntervalClicked v))) = v"
    if "v \<in> set (createIntervalClicksChannel s0 p)" for v
  proof -
    from that have "v \<in> fst ` set (intervalItems s0)"
      by (force simp: createIntervalClicksChannel_def)
    with inv0 have "v \<in> set allowedIntervals" by (simp add: tray_inv_def)
    then show ?thesis
      by (simp add: updateIntervalChecks_menu SetSleepIntervalSec_def)
  qed
  ultimately show ?thesis
    by (simp add: s_def[symmetric])
qed

theorem exclusive_checkmarks_witness:
  "onReady embeddedIcon (NewTray (exampleConfig True)) = Inr (readyLocals, exampleReady) \<and>
   checkedItems (mInterval readyLocals)
     (run readyLocals exampleReady (concat (map (received readyLocals exampleReady) [8, 10, 0]))) = [8] \<and>
   checkedItems (mWorkingHours readyLocals)
     (run readyLocals exampleReady (concat (map (received readyLocals exampleReady) [8, 10, 0]))) = [10]"
proof -
  define s where
    "s = run readyLocals exampleReady (concat (map (received readyLocals exampleReady) [8, 10, 0]))"
  have m: "intervalItems s = [(- 1, 6), (30, 7), (60, 8)]"
    "workingHoursMenuItems s = [(''always'', 9), (''09:00-17:00'', 10), (''22:00-06:00'', 11)]"
    by (simp_all add: s_def run_maps) (simp_all add: exampleReady_def)
  have c: "SleepInterval (config s) = 60" "WorkingHoursInterval (config s) = ''09:00-17:00''"
    by (simp_all only: s_def example_received example_config)
  from exclusive_checkmarks[OF onReady_example, of "[8, 10, 0]"]
  have "(\<exists>h. map_of (intervalItems s) (SleepInterval (config s)) = Some h \<and>
            checkedItems (mInterval readyLocals) s = [h]) \<and>
        (\<exists>h. map_of (workingHoursMenuItems s) (WorkingHoursInterval (config s)) = Some h \<and>
            checkedItems (mWorkingHours readyLocals) s = [h])"
    by (simp add: Let_def s_def)
  then have "checkedItems (mInterval readyLocals) s = [8]"
    "checkedItems (mWorkingHours readyLocals) s = [10]"
    by (simp_all add: m c)
  with onReady_example show ?thesis
    by (simp add: s_def)
qed

text \<open>
  C7. Receiving a click on the same working-hours label twice in a row leaves the
  state (configuration and checkmarks alike) as receiving it once does.
\<close>

theorem working_hours_event_idempotent:
  "coordinator L (coordinator L s (WorkingHoursClicked l)) (WorkingHoursClicked l) =
   coordinator L s (WorkingHoursClicked l)"
  by (simp add: updateNightModeIntervalChecks_menu SetWorkingHoursInterval_def setChecks_idem)

subsection \<open>Startup\<close>

text \<open>
  C9. When the embedded icon cannot be loaded, \<open>onReady\<close> panics at once and leaves
  the state as it found it: on the tray that \<open>NewTray\<close> made there is no menu item,
  the loop is not running and no \<open>MoveMouse\<close> goroutine was started.
\<close>

theorem icon_failure:
  assumes "loadIcon iconFile = Inl err"
  shows "onReady iconFile s = Inl (CouldNotLoadIcon err, s) \<and>
         (case onReady iconFile (NewTray c) of
            Inl (p, s') \<Rightarrow> menu s' = [] \<and> \<not> looping s' \<and> moveMouseRuns s' = 0
          | Inr r \<Rightarrow> False)"
  using assms by (simp add: onReady_def NewTray_def)

theorem icon_failure_witness:
  "loadIcon missingIcon = Inl ''file does not exist'' \<and>
   onReady missingIcon (NewTray (exampleConfig True)) =
     Inl (CouldNotLoadIcon ''file does not exist'', NewTray (exampleConfig True))"
proof -
  have l: "loadIcon missingIcon = Inl ''file does not exist''"
    by (simp add: loadIcon_def missingIcon_def)
  from icon_failure[OF l, of "NewTray (exampleConfig True)"] l show ?thesis
    by simp
qed

text \<open>
  C10. With the icon loaded, \<open>onReady\<close> on a fresh tray returns exactly when the
  sleep interval of the configuration is one of \<open>-1\<close>, \<open>30\<close>, \<open>60\<close> and its
  working-hours label is in the catalog, and then the items found under these two keys
  carry a checkmark; otherwise one of the two lookups gives the nil pointer and
  \<open>Check\<close> on it panics.
\<close>

theorem startup_marks_need_valid_config:
  assumes "loadIcon iconFile = Inr icon"
  shows "case onReady iconFile (NewTray c) of
           Inl (p, s) \<Rightarrow>
             p = NilPointerDereference \<and>
             \<not> (SleepInterval c \<in> {- 1, 30, 60} \<and> WorkingHoursInterval c \<in> set (WorkingHours c))
         | Inr (L, s) \<Rightarrow>
             SleepInterval c \<in> {- 1, 30, 60} \<and> WorkingHoursInterval c \<in> set (WorkingHours c) \<and>
             (\<exists>h. map_of (intervalItems s) (SleepInterval c) = Some h \<and> checked (menu s ! h)) \<and>
             (\<exists>h. map_of (workingHoursMenuItems s) (WorkingHoursInterval c) = Some h \<and>
                  checked (menu s ! h))"
proof (cases "SleepInterval c \<in> set allowedIntervals \<and>
              WorkingHoursInterval c \<in> set (WorkingHours c)")
  case True
  with onReady_ok[OF assms, of c] obtain s
    where s: "onReady iconFile (NewTray c) = Inr (readyLocals, s)"
      and inv: "tray_inv readyLocals s" and c: "config s = c"
    by auto
  from inv have
    "\<exists>h. map_of (intervalItems s) (SleepInterval (config s)) = Some h \<and> checked (menu s ! h)"
    "\<exists>h. map_of (workingHoursMenuItems s) (WorkingHoursInterval (config s)) = Some h \<and>
         checked (menu s ! h)"
    by (auto simp: tray_inv_def intro: marked_checked)
  with True show ?thesis
    by (simp add: s c allowedIntervals_def)
next
  case False
  with onReady_nil[OF assms, of c] obtain s
    where "onReady iconFile (NewTray c) = Inl (NilPointerDereference, s)"
    by auto
  with False show ?thesis
    by (simp add: allowedIntervals_def)
qed

theorem startup_marks_need_valid_config_witness:
  "loadIcon embeddedIcon = Inr [137, 80, 78, 71] \<and>
   onReady embeddedIcon (NewTray (exampleConfig True)) = Inr (readyLocals, exampleReady) \<and>
   SleepInterval (exampleConfig True) \<in> {- 1, 30, 60} \<and>
   WorkingHoursInterval (exampleConfig True) \<in> set (WorkingHours (exampleConfig True)) \<and>
   (\<exists>h. map_of (intervalItems exampleReady) (SleepInterval (exampleConfig True)) = Some h \<and>
        checked (menu exampleReady ! h))"
  using startup_marks_need_valid_config[OF loadIcon_embeddedIcon, of "exampleConfig True"]
    loadIcon_embeddedIcon
  by (simp add: onReady_example)

subsection \<open>The time window\<close>

text \<open>
  C5. For a label other than the sentinel that encodes the range from \<open>start\<close> to
  \<open>stop\<close>, movement is permitted exactly at the times of day in \<open>[start, stop)\<close>,
  which wraps past midnight when \<open>start > stop\<close>: these are the times of day that
  come less than the length of the window after \<open>start\<close>. For "22:00-06:00" it is
  permitted at 23:30 and not at 12:00.
\<close>

theorem window_evaluator:
  "(label \<noteq> alwaysLabel \<longrightarrow> parseRange label = Some (start, stop) \<longrightarrow>
      (movementPermitted now label \<longleftrightarrow>
         (if start > stop then now \<in> {start..} \<union> {..<stop} else now \<in> {start..<stop})) \<and>
      (now < 1440 \<longrightarrow>
         (movementPermitted now label \<longleftrightarrow>
            (now + 1440 - start) mod 1440 < (stop + 1440 - start) mod 1440))) \<and>
   parseRange ''22:00-06:00'' = Some (clock 22 0, clock 6 0) \<and>
   movementPermitted (clock 23 30) ''22:00-06:00'' \<and>
   \<not> movementPermitted (clock 12 0) ''22:00-06:00''"
proof -
  have r: "parseRange ''22:00-06:00'' = Some (clock 22 0, clock 6 0)"
    by (simp add: parseRange_def digit_def)
  have i: "movementPermitted (clock 23 30) ''22:00-06:00''"
    "\<not> movementPermitted (clock 12 0) ''22:00-06:00''"
    by (simp_all add: movementPermitted_def r alwaysLabel_def) (simp_all add: clock_def)
  have g: "movementPermitted now label \<longleftrightarrow>
      (if start > stop then now \<in> {start..} \<union> {..<stop} else now \<in> {start..<stop})"
    if "label \<noteq> alwaysLabel" "parseRange label = Some (start, stop)"
    using that by (auto simp: movementPermitted_def)
  have c: "movementPermitted now label \<longleftrightarrow>
      (now + 1440 - start) mod 1440 < (stop + 1440 - start) mod 1440"
    if "label \<noteq> alwaysLabel" "parseRange label = Some (start, stop)" "now < 1440"
  proof -
    from that(2) have "start < 1440" "stop < 1440"
      by (simp_all add: parseRange_less)
    from window_on_the_clock[OF this that(3)] that(1,2) show ?thesis
      by (simp add: movementPermitted_def)
  qed
  from r i g c show ?thesis by blast
qed

theorem window_evaluator_witness:
  "''09:00-17:00'' \<noteq> alwaysLabel \<and>
   parseRange ''09:00-17:00'' = Some (clock 9 0, clock 17 0) \<and>
   movementPermitted (clock 16 59) ''09:00-17:00'' \<and>
   \<not> movementPermitted (clock 17 0) ''09:00-17:00''"
proof -
  have n: "''09:00-17:00'' \<noteq> alwaysLabel"
    by (simp add: alwaysLabel_def)
  have r: "parseRange ''09:00-17:00'' = Some (clock 9 0, clock 17 0)"
    by (simp add: parseRange_def digit_def)
  from window_evaluator[of "''09:00-17:00''" "clock 9 0" "clock 17 0" "clock 16 59"]
    window_evaluator[of "''09:00-17:00''" "clock 9 0" "clock 17 0" "clock 17 0"] n r
  show ?thesis
    by (simp add: clock_def)
qed

text \<open>
  C6. The evaluator fails closed. The sentinel is decided before anything is parsed;
  every other label that cannot be parsed as a time range permits no movement, at any
  time of day, and the evaluator raises no error: it is a total function to a truth
  value.
\<close>

theorem unparsable_label:
  "label \<noteq> alwaysLabel \<Longrightarrow> parseRange label = None \<Longrightarrow> \<not> movementPermitted now label"
  by (simp add: movementPermitted_def)

theorem unparsable_label_witness:
  "''lunch'' \<noteq> alwaysLabel \<and> parseRange ''lunch'' = None \<and>
   \<not> movementPermitted (clock 12 0) ''lunch''"
proof -
  have n: "''lunch'' \<noteq> alwaysLabel"
    by (simp add: alwaysLabel_def)
  have r: "parseRange ''lunch'' = None"
    by (simp add: parseRange_def)
  from unparsable_label[OF n r, of "clock 12 0"] n r show ?thesis
    by simp
qed

end
